theory Spec2Isabelle
  imports Main
begin

section \<open>The newsletter pipeline of \<^verbatim>\<open>src/main.py\<close>\<close>

text \<open>
  The program is one Python class, \<^verbatim>\<open>NewsletterAgents\<close>, and a command-line entry.
  Its own logic is string building around three kinds of collaborator that live outside
  the repository: the search tool, the four agents and the process environment.  The
  collaborators are parameters of the model; everything between them is translated line
  by line.

  Conventions of the embedding:
  \<^item> a Python \<^verbatim>\<open>str\<close> is a \<open>string\<close>, one \<open>char\<close> per character, so that \<open>length\<close>
    is \<^verbatim>\<open>len\<close> and \<open>take n\<close> is the slice \<^verbatim>\<open>[:n]\<close> (text whose code points lie
    below 256; the slices and concatenations of the source never look at the alphabet);
  \<^item> what \<^verbatim>\<open>d.get(k)\<close> and \<^verbatim>\<open>hasattr\<close> probe is an \<open>option\<close>: \<open>None\<close> is a missing
    key or a missing attribute.  Where the program hands the value on unconverted (the
    tool's \<^verbatim>\<open>error_message\<close>, the attributes of an agent's response) the value is a
    \<open>py_value\<close>, so that a key or attribute that is there and holds Python's \<^verbatim>\<open>None\<close>
    is told apart from one that is missing;
  \<^item> an exception is a value \<open>Inl e\<close>, where \<open>e\<close> is the text \<^verbatim>\<open>str(e)\<close>;
  \<^item> every call that \<^verbatim>\<open>main.py\<close> itself makes to a collaborator is recorded in an
    event list, in program order (what an agent does inside its own \<^verbatim>\<open>run\<close>, such as
    calling the search tool it was given, belongs to the agent framework);
  \<^item> \<^verbatim>\<open>print\<close> is not modelled.
\<close>

subsection \<open>Python primitives\<close>

type_synonym exn = string

text \<open>\<^verbatim>\<open>str(n)\<close> of a non-negative integer, as an f-string renders \<^verbatim>\<open>{i+1}\<close> and \<^verbatim>\<open>{len(..)}\<close>.\<close>

fun str_nat :: "nat \<Rightarrow> string" where
  "str_nat n =
     (if n < 10 then [''0123456789'' ! n]
      else str_nat (n div 10) @ [''0123456789'' ! (n mod 10)])"

declare str_nat.simps [simp del]

text \<open>An f-string field \<^verbatim>\<open>{v}\<close> where \<^verbatim>\<open>v\<close> is a string or \<^verbatim>\<open>None\<close>.\<close>

fun py_format :: "string option \<Rightarrow> string" where
  "py_format None = ''None''"
| "py_format (Some s) = s"

text \<open>
  A value the program receives and passes on without looking at its type: \<^verbatim>\<open>None\<close>, a
  string, or an object of another type, given by the text \<^verbatim>\<open>str\<close> makes of it.
\<close>

datatype py_value = PyNone | PyStr string | PyObject string

text \<open>An f-string field \<^verbatim>\<open>{v}\<close> for such a value.\<close>

fun py_str :: "py_value \<Rightarrow> string" where
  "py_str PyNone = ''None''"
| "py_str (PyStr s) = s"
| "py_str (PyObject s) = s"

text \<open>\<^verbatim>\<open>isinstance(v, str)\<close>.\<close>

fun is_str :: "py_value \<Rightarrow> bool" where
  "is_str (PyStr s) = True"
| "is_str v = False"

text \<open>Truth value of a string or \<^verbatim>\<open>None\<close>: \<^verbatim>\<open>None\<close> and \<^verbatim>\<open>""\<close> are false.\<close>

fun py_truthy :: "string option \<Rightarrow> bool" where
  "py_truthy None = False"
| "py_truthy (Some s) = (s \<noteq> [])"

text \<open>\<^verbatim>\<open>str.lower\<close>: the ASCII capitals become small letters, the rest stays.\<close>

definition lower_char :: "char \<Rightarrow> char" where
  "lower_char c =
     (case map_of (zip ''ABCDEFGHIJKLMNOPQRSTUVWXYZ'' ''abcdefghijklmnopqrstuvwxyz'') c of
        None \<Rightarrow> c
      | Some l \<Rightarrow> l)"

definition lower :: "string \<Rightarrow> string" where
  "lower s = map lower_char s"

text \<open>\<^verbatim>\<open>sep.join(xs)\<close>.\<close>

fun join :: "string \<Rightarrow> string list \<Rightarrow> string" where
  "join sep [] = []"
| "join sep [x] = x"
| "join sep (x # y # ys) = x @ sep @ join sep (y # ys)"

subsection \<open>Data of the collaborators\<close>

text \<open>
  Modelled from the spec: \<^verbatim>\<open>search_tool.py\<close> (SearchInputSchema, SearchAndContentsTool)
  and the agent framework are not part of the source.  The shapes below are the ones of
  the spec's external interfaces, with exactly the keys and attributes that
  \<^verbatim>\<open>main.py\<close> reads.
\<close>

datatype search_input =
  SearchInputSchema (search_query: string) (days_ago: int) (max_results: int)

record search_result =
  title :: "string option"
  url :: "string option"
  published_date :: "string option"
  content_preview :: "string option"

text \<open>
  The dictionary a search returns.  \<open>queried\<close> is the key \<^verbatim>\<open>'search_query'\<close> (the name
  is taken by the input schema), \<open>results\<close> the key \<^verbatim>\<open>'results'\<close>, \<open>None\<close> when the
  key is missing.  For \<^verbatim>\<open>'error_message'\<close>, read with a default, \<open>None\<close> is the missing
  key and \<open>Some PyNone\<close> the key that is there with the value \<^verbatim>\<open>None\<close>.
\<close>

record search_response =
  success :: bool
  queried :: "string option"
  results :: "search_result list option"
  error_message :: "py_value option"

text \<open>
  The object an agent returns: the three attributes the pipeline probes with
  \<^verbatim>\<open>hasattr\<close> (\<open>None\<close>: no such attribute; \<open>Some v\<close>: the attribute is there and
  holds \<open>v\<close>, which may be \<^verbatim>\<open>None\<close>) and the text \<^verbatim>\<open>str(obj)\<close>.
\<close>

record agent_response =
  response_message :: "py_value option"
  content :: "py_value option"
  response_content :: "py_value option"
  str_of :: string

text \<open>
  \<^verbatim>\<open>self\<close>: the search tool and the four agents, each a function from what it is
  called with to an exception or a value.  An agent is called with an empty input and a
  one-message history; its argument here is that message's content.
\<close>

record newsletter_agents =
  search_tool :: "search_input \<Rightarrow> exn + search_response"
  researcher :: "string \<Rightarrow> exn + agent_response"
  insights_expert :: "string \<Rightarrow> exn + agent_response"
  writer :: "string \<Rightarrow> exn + agent_response"
  editor :: "string \<Rightarrow> exn + agent_response"

datatype agent = Researcher | InsightsExpert | Writer | Editor

text \<open>
  The calls that leave the program: \<open>Searched\<close> is \<^verbatim>\<open>self.search_tool.run\<close>,
  \<open>Ran a m\<close> the call \<^verbatim>\<open>run\<close> of agent \<open>a\<close> with message \<open>m\<close>, \<open>Constructed\<close> the
  call of the constructor \<^verbatim>\<open>NewsletterAgents(..)\<close>, which builds the four agents.
\<close>

datatype event =
  Searched search_input
| Ran agent string
| Constructed

fun searches :: "event list \<Rightarrow> search_input list" where
  "searches [] = []"
| "searches (Searched i # es) = i # searches es"
| "searches (_ # es) = searches es"

fun agents_run :: "event list \<Rightarrow> agent list" where
  "agents_run [] = []"
| "agents_run (Ran a _ # es) = a # agents_run es"
| "agents_run (_ # es) = agents_run es"

subsection \<open>\<^verbatim>\<open>manual_search\<close> (lines 177--205)\<close>

text \<open>The dictionary \<^verbatim>\<open>{"success": False, "error_message": msg}\<close>.\<close>

definition failed :: "py_value \<Rightarrow> search_response" where
  "failed msg = \<lparr>success = False, queried = None, results = None, error_message = Some msg\<rparr>"

text \<open>
  \<^verbatim>\<open>results.get("error_message", "Unknown error")\<close> gives the default for a missing key
  only; a key that is there comes back with its value, whatever it is.
\<close>

definition manual_search ::
  "newsletter_agents \<Rightarrow> string \<Rightarrow> int \<Rightarrow> event list \<times> search_response" where
  "manual_search self query days =
     (let search_input = SearchInputSchema query days 5
      in ([Searched search_input],
          case search_tool self search_input of
            Inr found \<Rightarrow>
              if success found then found
              else failed (case error_message found of
                             None \<Rightarrow> PyStr ''Unknown error'' | Some msg \<Rightarrow> msg)
          | Inl e \<Rightarrow> failed (PyStr e)))"

subsection \<open>The digest (lines 226--245)\<close>

text \<open>The last line of a result's block, written only for a non-empty preview.\<close>

definition preview_line :: "search_result \<Rightarrow> string" where
  "preview_line result =
     (case content_preview result of
        None \<Rightarrow> []
      | Some preview \<Rightarrow>
          if py_truthy (Some preview)
          then ''Preview: '' @ take 300 preview @ ''...\<newline>\<newline>''
          else [])"

text \<open>What one iteration of the loop appends for the result at index \<open>i\<close>.\<close>

definition result_block :: "nat \<Rightarrow> search_result \<Rightarrow> string" where
  "result_block i result =
     ''[Result '' @ str_nat (i + 1) @ '']\<newline>''
     @ ''Title: '' @ py_format (title result) @ ''\<newline>''
     @ ''URL: '' @ py_format (url result) @ ''\<newline>''
     @ ''Published: '' @ py_format (published_date result) @ ''\<newline>''
     @ preview_line result"

text \<open>The loop \<^verbatim>\<open>for i, result in enumerate(..)\<close>, from index \<open>i\<close> on.\<close>

fun append_results :: "string \<Rightarrow> nat \<Rightarrow> search_result list \<Rightarrow> string" where
  "append_results search_summary i [] = search_summary"
| "append_results search_summary i (result # rest) =
     append_results (search_summary @ result_block i result) (i + 1) rest"

text \<open>
  One of the two \<^verbatim>\<open>if ..get("success")\<close> blocks.  They differ only in the text before
  \<^verbatim>\<open>Search for\<close>: nothing for the primary search, a newline for the secondary one.
\<close>

definition add_section :: "string \<Rightarrow> string \<Rightarrow> search_response \<Rightarrow> string" where
  "add_section search_summary lead found =
     (if success found
      then (let rs = (case results found of None \<Rightarrow> [] | Some rs \<Rightarrow> rs)
            in append_results
                 (search_summary @ lead @ ''Search for '' @ [CHR 0x27]
                    @ py_format (queried found) @ [CHR 0x27] @ '' found ''
                    @ str_nat (length rs) @ '' results:\<newline>\<newline>'')
                 0 rs)
      else search_summary)"

definition search_summary :: "search_response \<Rightarrow> search_response \<Rightarrow> string" where
  "search_summary primary_search_results secondary_search_results =
     add_section
       (add_section ''SEARCH RESULTS:\<newline>\<newline>'' [] primary_search_results)
       ''\<newline>'' secondary_search_results"

subsection \<open>Prompts and response handling (lines 247--367)\<close>

definition research_message :: "string \<Rightarrow> string \<Rightarrow> string" where
  "research_message user_input digest =
     ''Research task: Analyze these search results about '' @ user_input @ ''.\<newline>\<newline>''
     @ digest @ ''\<newline>\<newline>''
     @ ''Organize these findings into clear research with reliable sources. ''
     @ ''Include the significance of each development and its broader industry impact. ''
     @ ''If you need more specific information, use the search_and_contents tool with a specific query.''"

definition insights_message :: "string \<Rightarrow> py_value \<Rightarrow> string \<Rightarrow> string" where
  "insights_message user_input research_content digest =
     ''Add insights to the following research about '' @ user_input @ ''.\<newline>\<newline>''
     @ ''Research to analyze:\<newline>'' @ py_str research_content @ ''\<newline>\<newline>''
     @ ''Also consider these additional search results:\<newline>''
     @ take 1000 digest @ ''...\<newline>\<newline>''
     @ ''If you need any specific information, use the search_and_contents tool with a specific query.''"

definition writing_message :: "string \<Rightarrow> py_value \<Rightarrow> string" where
  "writing_message user_input insights_content =
     ''Transform these insights about '' @ user_input
     @ '' into engaging newsletter content:\<newline>\<newline>'' @ py_str insights_content"

definition editing_message :: "string \<Rightarrow> py_value \<Rightarrow> string" where
  "editing_message user_input newsletter_draft =
     ''Proofread and refine this newsletter draft about '' @ user_input @ ''. ''
     @ ''Ensure all sources are properly cited and the content is engaging and informative:\<newline>\<newline>''
     @ py_str newsletter_draft"

text \<open>
  The \<^verbatim>\<open>hasattr\<close> chain, written out four times in the source (lines 269--278,
  305--312, 334--341, 360--367) with the same three names in the same order.  The value
  of the attribute is taken as it is; only the last branch makes a string.
\<close>

definition extract_content :: "agent_response \<Rightarrow> py_value" where
  "extract_content result =
     (case response_message result of
        Some v \<Rightarrow> v
      | None \<Rightarrow>
          (case content result of
             Some v \<Rightarrow> v
           | None \<Rightarrow>
               (case response_content result of
                  Some v \<Rightarrow> v
                | None \<Rightarrow> PyStr (str_of result))))"

text \<open>
  The attribute that this chain picks holds a string, or the response has none of the
  three attributes.
\<close>

definition picks_text :: "agent_response \<Rightarrow> bool" where
  "picks_text result =
     (case response_message result of
        Some v \<Rightarrow> is_str v
      | None \<Rightarrow>
          (case content result of
             Some v \<Rightarrow> is_str v
           | None \<Rightarrow>
               (case response_content result of
                  Some v \<Rightarrow> is_str v
                | None \<Rightarrow> True)))"

subsection \<open>\<^verbatim>\<open>run_pipeline\<close> (lines 209--381)\<close>

type_synonym pipeline_result = "(string \<times> py_value) list"

text \<open>
  Lines 221--245, before the first stage: the two searches and the digest built from
  what they returned.
\<close>

definition prepared_search :: "newsletter_agents \<Rightarrow> string \<Rightarrow> event list \<times> string" where
  "prepared_search self user_input =
     (let (log1, primary_search_results) =
            manual_search self (''latest developments in '' @ user_input) 30;
          (log2, secondary_search_results) =
            manual_search self (''impact of '' @ user_input) 60
      in (log1 @ log2, search_summary primary_search_results secondary_search_results))"

text \<open>
  The four stages.  An exception of an agent is not caught: it ends the run.  The
  result is the returned dictionary, as its items in order.
\<close>

definition run_pipeline ::
  "newsletter_agents \<Rightarrow> string \<Rightarrow> event list \<times> (exn + pipeline_result)" where
  "run_pipeline self user_input =
     (let (log, digest) = prepared_search self user_input;
          research_input = research_message user_input digest;
          log = log @ [Ran Researcher research_input]
      in case researcher self research_input of
           Inl e \<Rightarrow> (log, Inl e)
         | Inr research_result \<Rightarrow>
        (let research_content = extract_content research_result;
             insights_input = insights_message user_input research_content digest;
             log = log @ [Ran InsightsExpert insights_input]
         in case insights_expert self insights_input of
              Inl e \<Rightarrow> (log, Inl e)
            | Inr insights_result \<Rightarrow>
           (let insights_content = extract_content insights_result;
                writing_input = writing_message user_input insights_content;
                log = log @ [Ran Writer writing_input]
            in case writer self writing_input of
                 Inl e \<Rightarrow> (log, Inl e)
               | Inr writing_result \<Rightarrow>
              (let newsletter_draft = extract_content writing_result;
                   editing_input = editing_message user_input newsletter_draft;
                   log = log @ [Ran Editor editing_input]
               in case editor self editing_input of
                    Inl e \<Rightarrow> (log, Inl e)
                  | Inr editing_result \<Rightarrow>
                      (log,
                       Inr [(''research'', research_content),
                            (''insights'', insights_content),
                            (''draft'', newsletter_draft),
                            (''final'', extract_content editing_result)])))))"

subsection \<open>The command-line entry (lines 384--437)\<close>

text \<open>
  The process: the value of \<^verbatim>\<open>EXA_API_KEY\<close>, the arguments after the script name, the
  lines waiting on standard input, and what the constructor \<^verbatim>\<open>NewsletterAgents(..)\<close>
  does with the key (it builds the tool and the agents, or raises).
\<close>

record process =
  exa_api_key :: "string option"
  args :: "string list"
  stdin :: "string list"
  construct :: "string option \<Rightarrow> exn + newsletter_agents"

text \<open>
  How the process ends: \<open>Exit n\<close> is \<^verbatim>\<open>sys.exit(n)\<close>, \<open>Uncaught e\<close> an exception
  that leaves the script (\<^verbatim>\<open>input\<close> at end of file raises \<^verbatim>\<open>EOFError\<close>), \<open>Done\<close>
  the end of the script.
\<close>

datatype ending = Exit nat | Uncaught exn | Done

text \<open>
  After the credential gate: lines 399--437, with the input lines still unread.  An
  exception of the pipeline is caught and reported there, and so is the end of input at
  the closing question; either way the script runs to its end.
\<close>

definition generate :: "process \<Rightarrow> string list \<Rightarrow> event list \<times> ending" where
  "generate p unread =
     (case construct p (exa_api_key p) of
        Inl e \<Rightarrow> ([Constructed], Uncaught e)
      | Inr agents \<Rightarrow>
          (if args p \<noteq> []
           then (let (log, _) = run_pipeline agents (join '' '' (args p))
                 in (Constructed # log, Done))
           else (case unread of
                   [] \<Rightarrow> ([Constructed], Uncaught ''EOFError'')
                 | user_query # _ \<Rightarrow>
                     (let (log, _) = run_pipeline agents user_query
                      in (Constructed # log, Done)))))"

definition main :: "process \<Rightarrow> event list \<times> ending" where
  "main p =
     (if \<not> py_truthy (exa_api_key p)
      then (case stdin p of
              [] \<Rightarrow> ([], Uncaught ''EOFError'')
            | answer # unread \<Rightarrow>
                (let proceed = lower answer
                 in if proceed \<noteq> ''y'' then ([], Exit 1) else generate p unread))
      else generate p (stdin p))"

subsection \<open>Sample collaborators\<close>

text \<open>
  Concrete collaborators on which the theorems below are run: an agent response that
  has the attribute \<^verbatim>\<open>content\<close> and no other, a search tool that is off line, and
  four agents that answer with a fixed text each.
\<close>

definition only_content :: "string \<Rightarrow> agent_response" where
  "only_content text =
     \<lparr>response_message = None, content = Some (PyStr text), response_content = None,
      str_of = ''<response object>''\<rparr>"

definition offline_agents :: newsletter_agents where
  "offline_agents =
     \<lparr>search_tool = (\<lambda>_. Inl ''connection refused''),
      researcher = (\<lambda>_. Inr (only_content ''findings'')),
      insights_expert = (\<lambda>_. Inr (only_content ''analysis'')),
      writer = (\<lambda>_. Inr (only_content ''draft text'')),
      editor = (\<lambda>_. Inr (only_content ''final text''))\<rparr>"

text \<open>
  A response whose attribute \<^verbatim>\<open>response_message\<close> is there and holds \<^verbatim>\<open>None\<close>, with
  the text under \<^verbatim>\<open>content\<close>; the same agents with a researcher that answers so; and
  the same agents with a search tool that reports a failure with \<^verbatim>\<open>error_message\<close> set
  to \<^verbatim>\<open>None\<close>.
\<close>

definition null_message :: "string \<Rightarrow> agent_response" where
  "null_message text =
     \<lparr>response_message = Some PyNone, content = Some (PyStr text), response_content = None,
      str_of = ''<response object>''\<rparr>"

definition null_message_agents :: newsletter_agents where
  "null_message_agents = offline_agents\<lparr>researcher := (\<lambda>_. Inr (null_message ''findings''))\<rparr>"

definition silent_failure_agents :: newsletter_agents where
  "silent_failure_agents =
     offline_agents
       \<lparr>search_tool :=
          (\<lambda>_. Inr \<lparr>success = False, queried = None, results = None,
                     error_message = Some PyNone\<rparr>)\<rparr>"

text \<open>
  Search results of the usual shape: a result with all four fields and a preview of 300
  characters, a result that has a link and nothing else, a primary response with four
  full results and a secondary response with one bare result.
\<close>

definition sample_result :: search_result where
  "sample_result =
     \<lparr>title = Some ''Robots at work'', url = Some ''https://example.org/robots'',
      published_date = Some ''2025-01-15'', content_preview = Some (replicate 300 CHR ''x'')\<rparr>"

definition untitled_result :: search_result where
  "untitled_result =
     \<lparr>title = None, url = Some ''https://example.org/robots'', published_date = None,
      content_preview = None\<rparr>"

definition full_primary :: search_response where
  "full_primary =
     \<lparr>success = True, queried = Some ''latest developments in robotics'',
      results = Some [sample_result, sample_result, sample_result, sample_result],
      error_message = None\<rparr>"

definition small_secondary :: search_response where
  "small_secondary =
     \<lparr>success = True, queried = Some ''impact of robotics'',
      results = Some [untitled_result], error_message = None\<rparr>"

section \<open>Properties\<close>

subsection \<open>The digest is built by appending\<close>

lemma append_results_acc: "append_results acc i rs = acc @ append_results [] i rs"
proof (induction rs arbitrary: acc i)
  case Nil
  show ?case by simp
next
  case (Cons r rs)
  have "append_results acc i (r # rs) = append_results (acc @ result_block i r) (i + 1) rs"
    by simp
  also have "\<dots> = (acc @ result_block i r) @ append_results [] (i + 1) rs"
    by (rule Cons.IH)
  also have "\<dots> = acc @ append_results (result_block i r) (i + 1) rs"
    using Cons.IH [of "result_block i r" "i + 1"] by simp
  finally show ?case by simp
qed

lemma add_section_acc: "add_section acc lead found = acc @ add_section [] lead found"
  unfolding add_section_def Let_def
  using append_results_acc [of "acc @ _"] append_results_acc [of "lead @ _"]
  by (simp split: option.split)

lemma add_section_failed: "\<not> success found \<Longrightarrow> add_section acc lead found = acc"
  by (simp add: add_section_def)

lemma search_summary_sections:
  "search_summary p s =
     add_section ''SEARCH RESULTS:\<newline>\<newline>'' [] p @ add_section [] ''\<newline>'' s"
  unfolding search_summary_def by (rule add_section_acc)

lemma search_summary_header:
  "search_summary p s =
     ''SEARCH RESULTS:\<newline>\<newline>'' @ add_section [] [] p @ add_section [] ''\<newline>'' s"
  unfolding search_summary_sections
  using add_section_acc [of "''SEARCH RESULTS:\<newline>\<newline>''" "[]" p] by simp

subsection \<open>What a run calls, and what it returns\<close>

lemma manual_search_log: "fst (manual_search self q d) = [Searched (SearchInputSchema q d 5)]"
  by (simp add: manual_search_def Let_def)

lemma prepared_search_log:
  "fst (prepared_search self t) =
     [Searched (SearchInputSchema (''latest developments in '' @ t) 30 5),
      Searched (SearchInputSchema (''impact of '' @ t) 60 5)]"
  by (simp add: prepared_search_def manual_search_def Let_def)

lemma prepared_search_digest:
  "snd (prepared_search self t) =
     search_summary (snd (manual_search self (''latest developments in '' @ t) 30))
                    (snd (manual_search self (''impact of '' @ t) 60))"
  by (simp add: prepared_search_def Let_def split: prod.split)

lemma run_pipeline_Inr:
  assumes "researcher self (research_message t (snd (prepared_search self t))) = Inr r1"
    and "insights_expert self
           (insights_message t (extract_content r1) (snd (prepared_search self t))) = Inr r2"
    and "writer self (writing_message t (extract_content r2)) = Inr r3"
    and "editor self (editing_message t (extract_content r3)) = Inr r4"
  shows "run_pipeline self t =
     (fst (prepared_search self t) @
        [Ran Researcher (research_message t (snd (prepared_search self t))),
         Ran InsightsExpert
           (insights_message t (extract_content r1) (snd (prepared_search self t))),
         Ran Writer (writing_message t (extract_content r2)),
         Ran Editor (editing_message t (extract_content r3))],
      Inr [(''research'', extract_content r1), (''insights'', extract_content r2),
           (''draft'', extract_content r3), (''final'', extract_content r4)])"
proof -
  obtain log digest where "prepared_search self t = (log, digest)"
    by (cases "prepared_search self t")
  with assms show ?thesis
    by (simp add: run_pipeline_def Let_def)
qed

lemma run_pipeline_log_start:
  "take 3 (fst (run_pipeline self t)) =
     fst (prepared_search self t) @
       [Ran Researcher (research_message t (snd (prepared_search self t)))]"
proof -
  obtain log digest where ps: "prepared_search self t = (log, digest)"
    by (cases "prepared_search self t")
  have "length log = 2"
    using prepared_search_log [of self t] ps by simp
  with ps show ?thesis
    by (simp add: run_pipeline_def Let_def split: sum.split)
qed

lemma searches_append: "searches (xs @ ys) = searches xs @ searches ys"
  by (induction xs rule: searches.induct) simp_all

lemma run_pipeline_searches:
  "searches (fst (run_pipeline self t)) = searches (fst (prepared_search self t))"
proof -
  obtain log digest where ps: "prepared_search self t = (log, digest)"
    by (cases "prepared_search self t")
  then show ?thesis
    by (simp add: run_pipeline_def Let_def searches_append split: sum.split)
qed

lemma run_pipeline_Inl:
  assumes "snd (run_pipeline self t) = Inl e"
  shows "(\<exists>m. researcher self m = Inl e) \<or> (\<exists>m. insights_expert self m = Inl e)
       \<or> (\<exists>m. writer self m = Inl e) \<or> (\<exists>m. editor self m = Inl e)"
  using assms by (auto simp add: run_pipeline_def Let_def split: prod.splits sum.splits)

subsection \<open>The searches of a run\<close>

text \<open>
  C7.  Whatever the topic, the tool and the agents, a run calls the search tool exactly
  twice: first with the query \<^verbatim>\<open>latest developments in {topic}\<close> over 30 days, then
  with \<^verbatim>\<open>impact of {topic}\<close> over 60 days, each time asking for at most 5 results.
\<close>

theorem pipeline_issues_two_searches:
  "searches (fst (run_pipeline self t)) =
     [SearchInputSchema (''latest developments in '' @ t) 30 5,
      SearchInputSchema (''impact of '' @ t) 60 5]"
  by (simp add: run_pipeline_searches prepared_search_log)

subsection \<open>The header of the digest\<close>

text \<open>
  C10.  In every run the digest starts with the 17 characters \<^verbatim>\<open>SEARCH RESULTS:\n\n\<close>
  and so is never empty; when the search tool fails on every call the digest is that
  header alone.  The third call of the run is the researcher's, and its message is the
  sentence with the topic, then this digest, then the instructions: so the message
  itself goes on with the header right after the topic sentence.
\<close>

theorem research_prompt_digest_header:
  "take 17 (snd (prepared_search self t)) = ''SEARCH RESULTS:\<newline>\<newline>''
   \<and> snd (prepared_search self t) \<noteq> []
   \<and> snd (prepared_search (self\<lparr>search_tool := \<lambda>_. Inl e\<rparr>) t)
       = ''SEARCH RESULTS:\<newline>\<newline>''
   \<and> fst (run_pipeline self t) ! 2 =
       Ran Researcher
         (''Research task: Analyze these search results about '' @ t @ ''.\<newline>\<newline>''
          @ snd (prepared_search self t)
          @ ''\<newline>\<newline>''
          @ ''Organize these findings into clear research with reliable sources. ''
          @ ''Include the significance of each development and its broader industry impact. ''
          @ ''If you need more specific information, use the search_and_contents tool with a specific query.'')
   \<and> fst (run_pipeline self t) ! 2 =
       Ran Researcher
         (''Research task: Analyze these search results about '' @ t @ ''.\<newline>\<newline>''
          @ ''SEARCH RESULTS:\<newline>\<newline>'' @ drop 17 (snd (prepared_search self t))
          @ ''\<newline>\<newline>''
          @ ''Organize these findings into clear research with reliable sources. ''
          @ ''Include the significance of each development and its broader industry impact. ''
          @ ''If you need more specific information, use the search_and_contents tool with a specific query.'')"
proof -
  have head: "take 17 (snd (prepared_search self t)) = ''SEARCH RESULTS:\<newline>\<newline>''"
    by (simp add: prepared_search_digest search_summary_header)
  have nonempty: "snd (prepared_search self t) \<noteq> []"
    by (simp add: prepared_search_digest search_summary_header)
  have alone: "snd (prepared_search (self\<lparr>search_tool := \<lambda>_. Inl e\<rparr>) t)
          = ''SEARCH RESULTS:\<newline>\<newline>''"
    by (simp add: prepared_search_digest search_summary_def manual_search_def failed_def
        add_section_def)
  have "fst (run_pipeline self t) ! 2 = take 3 (fst (run_pipeline self t)) ! 2"
    by simp
  also have "\<dots> = Ran Researcher (research_message t (snd (prepared_search self t)))"
    unfolding run_pipeline_log_start prepared_search_log by simp
  finally have prompt: "fst (run_pipeline self t) ! 2 =
       Ran Researcher
         (''Research task: Analyze these search results about '' @ t @ ''.\<newline>\<newline>''
          @ snd (prepared_search self t)
          @ ''\<newline>\<newline>''
          @ ''Organize these findings into clear research with reliable sources. ''
          @ ''Include the significance of each development and its broader industry impact. ''
          @ ''If you need more specific information, use the search_and_contents tool with a specific query.'')"
    by (simp only: research_message_def)
  have split: "snd (prepared_search self t)
      = ''SEARCH RESULTS:\<newline>\<newline>'' @ drop 17 (snd (prepared_search self t))"
    using append_take_drop_id [of 17 "snd (prepared_search self t)"]
    by (simp only: head)
  have prompt': "fst (run_pipeline self t) ! 2 =
       Ran Researcher
         (''Research task: Analyze these search results about '' @ t @ ''.\<newline>\<newline>''
          @ (''SEARCH RESULTS:\<newline>\<newline>'' @ drop 17 (snd (prepared_search self t)))
          @ ''\<newline>\<newline>''
          @ ''Organize these findings into clear research with reliable sources. ''
          @ ''Include the significance of each development and its broader industry impact. ''
          @ ''If you need more specific information, use the search_and_contents tool with a specific query.'')"
    using prompt split by simp
  show ?thesis
    using head nonempty alone prompt prompt' by (simp only: append_assoc simp_thms)
qed

subsection \<open>The credential gate\<close>

lemma lower_char_y: "lower_char c = CHR ''y'' \<longleftrightarrow> c = CHR ''y'' \<or> c = CHR ''Y''"
  by (simp add: lower_char_def)

lemma lower_y: "lower answer = ''y'' \<longleftrightarrow> answer = ''y'' \<or> answer = ''Y''"
  by (cases answer) (auto simp add: lower_def lower_char_y)

text \<open>
  C8.  When \<^verbatim>\<open>EXA_API_KEY\<close> is unset (or empty) and the line typed at the question is
  anything but \<^verbatim>\<open>y\<close> or \<^verbatim>\<open>Y\<close>, the process ends with \<^verbatim>\<open>sys.exit(1)\<close> and has
  called nothing: the constructor that builds the agents was not reached.
\<close>

theorem credential_gate_exit:
  assumes "exa_api_key p = None \<or> exa_api_key p = Some []"
    and "stdin p = answer # unread"
    and "answer \<noteq> ''y''" and "answer \<noteq> ''Y''"
  shows "main p = ([], Exit 1)"
proof -
  have "\<not> py_truthy (exa_api_key p)"
    using assms(1) by auto
  moreover have "lower answer \<noteq> ''y''"
    using assms(3,4) by (simp add: lower_y)
  ultimately show ?thesis
    using assms(2) by (simp add: main_def Let_def)
qed

theorem credential_gate_exit_witness:
  "main \<lparr>exa_api_key = None, args = [''quantum'', ''computing''], stdin = [''no''],
         construct = (\<lambda>_. Inl ''unused'')\<rparr> = ([], Exit 1)"
  using credential_gate_exit
    [of "\<lparr>exa_api_key = None, args = [''quantum'', ''computing''], stdin = [''no''],
         construct = (\<lambda>_. Inl ''unused'')\<rparr>" "''no''" "[]"]
  by simp

subsection \<open>Response handling\<close>

text \<open>
  C3.  The stage text is the first attribute the response has among
  \<^verbatim>\<open>response_message\<close>, \<^verbatim>\<open>content\<close>, \<^verbatim>\<open>response_content\<close>, in this order, and
  \<^verbatim>\<open>str\<close> of the object only when it has none of the three.  A response that has
  \<^verbatim>\<open>content\<close> alone yields the value of \<^verbatim>\<open>content\<close>.
\<close>

theorem extract_content_precedence:
  "(response_message r = Some a \<longrightarrow> extract_content r = a)
   \<and> (response_message r = None \<and> content r = Some b \<longrightarrow> extract_content r = b)
   \<and> (response_message r = None \<and> content r = None \<and> response_content r = Some c
        \<longrightarrow> extract_content r = c)
   \<and> (response_message r = None \<and> content r = None \<and> response_content r = None
        \<longrightarrow> extract_content r = PyStr (str_of r))"
  by (simp add: extract_content_def)

theorem extract_content_precedence_witness:
  "extract_content (only_content ''body'') = PyStr ''body''"
  using extract_content_precedence
    [of "only_content ''body''" "PyStr ''x''" "PyStr ''body''" "PyStr ''z''"]
  by (simp add: only_content_def)

subsection \<open>The returned dictionary\<close>

lemma agents_run_append: "agents_run (xs @ ys) = agents_run xs @ agents_run ys"
  by (induction xs rule: agents_run.induct) simp_all

lemma is_str_extract_content: "is_str (extract_content r) = picks_text r"
  by (simp add: extract_content_def picks_text_def split: option.split)

text \<open>
  C5, as amended.  When each of the four agents returns a response to the message the
  run gives it, the run returns a dictionary with the keys \<^verbatim>\<open>research\<close>,
  \<^verbatim>\<open>insights\<close>, \<^verbatim>\<open>draft\<close> and \<^verbatim>\<open>final\<close> and no other, each once.  The value under
  a key is what the chain of C3 takes from that stage's response, unconverted: it is a
  string exactly when the attribute the chain picks holds a string, or the response has
  none of the three attributes.
\<close>

theorem pipeline_result_keys:
  assumes "researcher self (research_message t (snd (prepared_search self t))) = Inr r1"
    and "insights_expert self
           (insights_message t (extract_content r1) (snd (prepared_search self t))) = Inr r2"
    and "writer self (writing_message t (extract_content r2)) = Inr r3"
    and "editor self (editing_message t (extract_content r3)) = Inr r4"
  shows "\<exists>res. snd (run_pipeline self t) = Inr res
           \<and> res = [(''research'', extract_content r1), (''insights'', extract_content r2),
                    (''draft'', extract_content r3), (''final'', extract_content r4)]
           \<and> distinct (map fst res)
           \<and> dom (map_of res) = {''research'', ''insights'', ''draft'', ''final''}
           \<and> map (is_str \<circ> snd) res
               = [picks_text r1, picks_text r2, picks_text r3, picks_text r4]
           \<and> (if picks_text r1 \<and> picks_text r2 \<and> picks_text r3 \<and> picks_text r4
               then list_all (\<lambda>(k, v). v \<noteq> PyNone \<and> is_str v) res
               else \<not> list_all (\<lambda>(k, v). is_str v) res)"
proof -
  have "dom (map_of [(''research'', a), (''insights'', b), (''draft'', c), (''final'', d)])
          = {''research'', ''insights'', ''draft'', ''final''}" for a b c d :: py_value
    by (simp add: dom_map_of_conv_image_fst insert_commute)
  moreover have "is_str v \<Longrightarrow> v \<noteq> PyNone" for v
    by (cases v) simp_all
  ultimately show ?thesis
    by (auto simp add: run_pipeline_Inr [OF assms] is_str_extract_content)
qed

theorem pipeline_result_keys_witness:
  "snd (run_pipeline offline_agents ''robotics'') =
     Inr [(''research'', PyStr ''findings''), (''insights'', PyStr ''analysis''),
          (''draft'', PyStr ''draft text''), (''final'', PyStr ''final text'')]"
  using pipeline_result_keys [of offline_agents "''robotics''" "only_content ''findings''"
      "only_content ''analysis''" "only_content ''draft text''" "only_content ''final text''"]
  by (simp add: offline_agents_def extract_content_def only_content_def)

text \<open>
  The claim as stated fails: a researcher's response whose \<^verbatim>\<open>response_message\<close> is
  there and holds \<^verbatim>\<open>None\<close> is a response, all four calls return, and the value under
  \<^verbatim>\<open>research\<close> is \<^verbatim>\<open>None\<close>.
\<close>

theorem pipeline_result_null_counterexample:
  "researcher null_message_agents
     (research_message ''robotics'' (snd (prepared_search null_message_agents ''robotics'')))
     = Inr (null_message ''findings'')
   \<and> snd (run_pipeline null_message_agents ''robotics'') =
     Inr [(''research'', PyNone), (''insights'', PyStr ''analysis''),
          (''draft'', PyStr ''draft text''), (''final'', PyStr ''final text'')]"
proof -
  have "run_pipeline null_message_agents ''robotics'' =
     (fst (prepared_search null_message_agents ''robotics'') @
        [Ran Researcher
           (research_message ''robotics'' (snd (prepared_search null_message_agents ''robotics''))),
         Ran InsightsExpert
           (insights_message ''robotics'' (extract_content (null_message ''findings''))
              (snd (prepared_search null_message_agents ''robotics''))),
         Ran Writer (writing_message ''robotics'' (extract_content (only_content ''analysis''))),
         Ran Editor (editing_message ''robotics'' (extract_content (only_content ''draft text'')))],
      Inr [(''research'', extract_content (null_message ''findings'')),
           (''insights'', extract_content (only_content ''analysis'')),
           (''draft'', extract_content (only_content ''draft text'')),
           (''final'', extract_content (only_content ''final text''))])"
    by (rule run_pipeline_Inr) (simp_all add: null_message_agents_def offline_agents_def)
  then show ?thesis
    by (simp add: extract_content_def null_message_def only_content_def
        null_message_agents_def offline_agents_def)
qed

subsection \<open>Failed searches\<close>

text \<open>
  C4.  A search that comes back with \<^verbatim>\<open>success\<close> false leaves no section in the
  digest: the digest is what the other search alone gives, and the bare header when both
  fail.  The run goes on: when the four agents answer, all four are called in order and
  the run returns its result.
\<close>

theorem failed_search_section_omitted:
  assumes "researcher self (research_message t (snd (prepared_search self t))) = Inr r1"
    and "insights_expert self
           (insights_message t (extract_content r1) (snd (prepared_search self t))) = Inr r2"
    and "writer self (writing_message t (extract_content r2)) = Inr r3"
    and "editor self (editing_message t (extract_content r3)) = Inr r4"
  shows "(\<not> success (snd (manual_search self (''latest developments in '' @ t) 30)) \<longrightarrow>
            snd (prepared_search self t) =
              add_section ''SEARCH RESULTS:\<newline>\<newline>'' ''\<newline>''
                (snd (manual_search self (''impact of '' @ t) 60)))
       \<and> (\<not> success (snd (manual_search self (''impact of '' @ t) 60)) \<longrightarrow>
            snd (prepared_search self t) =
              add_section ''SEARCH RESULTS:\<newline>\<newline>'' []
                (snd (manual_search self (''latest developments in '' @ t) 30)))
       \<and> (\<not> success (snd (manual_search self (''latest developments in '' @ t) 30))
          \<and> \<not> success (snd (manual_search self (''impact of '' @ t) 60)) \<longrightarrow>
            snd (prepared_search self t) = ''SEARCH RESULTS:\<newline>\<newline>'')
       \<and> agents_run (fst (run_pipeline self t)) = [Researcher, InsightsExpert, Writer, Editor]
       \<and> (\<exists>res. snd (run_pipeline self t) = Inr res)"
proof (intro conjI impI)
  let ?p = "snd (manual_search self (''latest developments in '' @ t) 30)"
  let ?s = "snd (manual_search self (''impact of '' @ t) 60)"
  show "snd (prepared_search self t) = add_section ''SEARCH RESULTS:\<newline>\<newline>'' ''\<newline>'' ?s"
    if "\<not> success ?p"
    using that by (simp add: prepared_search_digest search_summary_def add_section_failed)
  show "snd (prepared_search self t) = add_section ''SEARCH RESULTS:\<newline>\<newline>'' [] ?p"
    if "\<not> success ?s"
    using that by (simp add: prepared_search_digest search_summary_def add_section_failed)
  show "snd (prepared_search self t) = ''SEARCH RESULTS:\<newline>\<newline>''"
    if "\<not> success ?p \<and> \<not> success ?s"
    using that by (simp add: prepared_search_digest search_summary_def add_section_failed)
  show "agents_run (fst (run_pipeline self t)) = [Researcher, InsightsExpert, Writer, Editor]"
    by (simp add: run_pipeline_Inr [OF assms] agents_run_append prepared_search_log)
  show "\<exists>res. snd (run_pipeline self t) = Inr res"
    by (simp add: run_pipeline_Inr [OF assms])
qed

theorem failed_search_section_omitted_witness:
  "\<not> success (snd (manual_search offline_agents (''latest developments in '' @ ''robotics'') 30))
   \<and> \<not> success (snd (manual_search offline_agents (''impact of '' @ ''robotics'') 60))
   \<and> snd (prepared_search offline_agents ''robotics'') = ''SEARCH RESULTS:\<newline>\<newline>''
   \<and> agents_run (fst (run_pipeline offline_agents ''robotics''))
       = [Researcher, InsightsExpert, Writer, Editor]"
  using failed_search_section_omitted [of offline_agents "''robotics''"
      "only_content ''findings''" "only_content ''analysis''" "only_content ''draft text''"
      "only_content ''final text''"]
  by (auto simp add: offline_agents_def manual_search_def failed_def)

text \<open>
  C9, as amended.  \<^verbatim>\<open>manual_search\<close> always returns a dictionary.  When the tool
  raises, and when the tool's result has \<^verbatim>\<open>success\<close> false and an \<^verbatim>\<open>error_message\<close>
  that is missing or a string, the dictionary is
  \<^verbatim>\<open>{"success": False, "error_message": m}\<close> where \<open>m\<close> is a string: the text of the
  exception, \<^verbatim>\<open>Unknown error\<close>, or the tool's own message.  Whatever the failed
  result holds, the pipeline adds nothing to the digest for it, and a run can only fail
  with an exception of one of its agents.
\<close>

theorem manual_search_never_raises:
  "(search_tool self (SearchInputSchema q d 5) = Inl e \<longrightarrow>
      snd (manual_search self q d) =
        \<lparr>success = False, queried = None, results = None,
         error_message = Some (PyStr e)\<rparr>)
   \<and> (search_tool self (SearchInputSchema q d 5) = Inr found \<and> \<not> success found
        \<and> error_message found = None \<longrightarrow>
      snd (manual_search self q d) =
        \<lparr>success = False, queried = None, results = None,
         error_message = Some (PyStr ''Unknown error'')\<rparr>)
   \<and> (search_tool self (SearchInputSchema q d 5) = Inr found \<and> \<not> success found
        \<and> error_message found = Some (PyStr msg) \<longrightarrow>
      snd (manual_search self q d) =
        \<lparr>success = False, queried = None, results = None,
         error_message = Some (PyStr msg)\<rparr>)
   \<and> (search_tool self (SearchInputSchema q d 5) = Inr found \<and> \<not> success found \<longrightarrow>
      \<not> success (snd (manual_search self q d)))
   \<and> (\<not> success (snd (manual_search self q d)) \<longrightarrow>
      add_section acc lead (snd (manual_search self q d)) = acc)
   \<and> (snd (run_pipeline self t) = Inl x \<longrightarrow>
      (\<exists>m. researcher self m = Inl x) \<or> (\<exists>m. insights_expert self m = Inl x)
      \<or> (\<exists>m. writer self m = Inl x) \<or> (\<exists>m. editor self m = Inl x))"
proof (intro conjI impI)
  show "snd (manual_search self q d) =
        \<lparr>success = False, queried = None, results = None,
         error_message = Some (PyStr e)\<rparr>"
    if "search_tool self (SearchInputSchema q d 5) = Inl e"
    using that by (simp add: manual_search_def failed_def)
  show "snd (manual_search self q d) =
        \<lparr>success = False, queried = None, results = None,
         error_message = Some (PyStr ''Unknown error'')\<rparr>"
    if "search_tool self (SearchInputSchema q d 5) = Inr found \<and> \<not> success found
        \<and> error_message found = None"
    using that by (simp add: manual_search_def failed_def)
  show "snd (manual_search self q d) =
        \<lparr>success = False, queried = None, results = None,
         error_message = Some (PyStr msg)\<rparr>"
    if "search_tool self (SearchInputSchema q d 5) = Inr found \<and> \<not> success found
        \<and> error_message found = Some (PyStr msg)"
    using that by (simp add: manual_search_def failed_def)
  show "\<not> success (snd (manual_search self q d))"
    if "search_tool self (SearchInputSchema q d 5) = Inr found \<and> \<not> success found"
    using that by (simp add: manual_search_def failed_def)
  show "add_section acc lead (snd (manual_search self q d)) = acc"
    if "\<not> success (snd (manual_search self q d))"
    using that by (rule add_section_failed)
  show "(\<exists>m. researcher self m = Inl x) \<or> (\<exists>m. insights_expert self m = Inl x)
      \<or> (\<exists>m. writer self m = Inl x) \<or> (\<exists>m. editor self m = Inl x)"
    if "snd (run_pipeline self t) = Inl x"
    using that by (rule run_pipeline_Inl)
qed

theorem manual_search_never_raises_witness:
  "search_tool offline_agents (SearchInputSchema ''impact of robotics'' 60 5)
     = Inl ''connection refused''
   \<and> snd (manual_search offline_agents ''impact of robotics'' 60) =
       \<lparr>success = False, queried = None, results = None,
        error_message = Some (PyStr ''connection refused'')\<rparr>
   \<and> add_section ''SEARCH RESULTS:\<newline>\<newline>'' ''\<newline>''
        (snd (manual_search offline_agents ''impact of robotics'' 60))
       = ''SEARCH RESULTS:\<newline>\<newline>''"
  using manual_search_never_raises [of offline_agents "''impact of robotics''" 60
      "''connection refused''" "failed PyNone" "[]" "''SEARCH RESULTS:\<newline>\<newline>''"
      "''\<newline>''" "''robotics''" "[]"]
  by (auto simp add: offline_agents_def)

text \<open>
  The claim as stated fails: when the tool reports a failure with \<^verbatim>\<open>error_message\<close>
  there and set to \<^verbatim>\<open>None\<close>, the default of \<^verbatim>\<open>get\<close> is not used and the returned
  \<^verbatim>\<open>error_message\<close> is \<^verbatim>\<open>None\<close>, not a string.
\<close>

theorem manual_search_null_message_counterexample:
  "search_tool silent_failure_agents (SearchInputSchema ''impact of robotics'' 60 5)
     = Inr \<lparr>success = False, queried = None, results = None, error_message = Some PyNone\<rparr>
   \<and> snd (manual_search silent_failure_agents ''impact of robotics'' 60) =
       \<lparr>success = False, queried = None, results = None, error_message = Some PyNone\<rparr>
   \<and> error_message (snd (manual_search silent_failure_agents ''impact of robotics'' 60))
       \<noteq> Some (PyStr ''Unknown error'')"
  by (simp add: manual_search_def failed_def silent_failure_agents_def offline_agents_def)

subsection \<open>Previews\<close>

lemma result_block_preview:
  "result_block i r = result_block i (r\<lparr>content_preview := None\<rparr>) @ preview_line r"
  by (simp add: result_block_def preview_line_def)

lemma length_preview_line: "length (preview_line r) \<le> 314"
  by (simp add: preview_line_def split: option.split)

lemma length_append_results_preview:
  "length (append_results acc i rs)
     \<le> length (append_results acc i (map (\<lambda>r. r\<lparr>content_preview := None\<rparr>) rs))
        + 314 * length rs"
proof (induction rs arbitrary: acc i)
  case Nil
  show ?case by simp
next
  case (Cons r rs)
  let ?strip = "\<lambda>r :: search_result. r\<lparr>content_preview := None\<rparr>"
  have "length (append_results acc i (r # rs))
          = length (append_results (acc @ result_block i r) (i + 1) rs)"
    by simp
  also have "\<dots> \<le> length (append_results (acc @ result_block i r) (i + 1) (map ?strip rs))
                   + 314 * length rs"
    by (rule Cons.IH)
  also have "length (append_results (acc @ result_block i r) (i + 1) (map ?strip rs))
          = length acc + length (result_block i (?strip r)) + length (preview_line r)
            + length (append_results [] (i + 1) (map ?strip rs))"
    using append_results_acc [of "acc @ result_block i r" "i + 1" "map ?strip rs"]
      result_block_preview [of i r]
    by simp
  also have "\<dots> \<le> length acc + length (result_block i (?strip r)) + 314
            + length (append_results [] (i + 1) (map ?strip rs))"
    using length_preview_line [of r] by simp
  also have "\<dots> = length (append_results acc i (map ?strip (r # rs))) + 314"
    using append_results_acc [of "acc @ result_block i (?strip r)" "i + 1" "map ?strip rs"]
    by simp
  finally show ?case by simp
qed

text \<open>
  C6.  The block of a result is its three labelled lines followed by its preview line.
  The preview line is empty for a missing or empty preview, and otherwise the label
  \<^verbatim>\<open>Preview: \<close>, the first 300 characters of the preview and \<^verbatim>\<open>...\n\n\<close>: at most
  300 characters of preview and 14 of label.  So the previews add at most
  \<open>300 + 14\<close> characters per result to the digest.
\<close>

theorem preview_capped_at_300:
  "result_block i r = result_block i (r\<lparr>content_preview := None\<rparr>) @ preview_line r
   \<and> preview_line (r\<lparr>content_preview := None\<rparr>) = []
   \<and> preview_line (r\<lparr>content_preview := Some p\<rparr>)
       = (if p = [] then [] else ''Preview: '' @ take 300 p @ ''...\<newline>\<newline>'')
   \<and> length (take 300 p) \<le> 300
   \<and> length (preview_line r) \<le> 300 + 14
   \<and> length (append_results acc i rs)
       \<le> length (append_results acc i (map (\<lambda>r. r\<lparr>content_preview := None\<rparr>) rs))
          + (300 + 14) * length rs"
  using result_block_preview [of i r] length_preview_line [of r]
    length_append_results_preview [of acc i rs]
  by (simp add: preview_line_def)

subsection \<open>Missing fields\<close>

text \<open>
  C2, as amended.  Formatting is a total function of the result records.  A missing
  title, link or date is written as the text \<^verbatim>\<open>None\<close>: a record renders exactly as the
  record that holds the string \<^verbatim>\<open>None\<close> in each missing field, and the block of a
  record with no field at all reads \<^verbatim>\<open>Title: None\<close>, \<^verbatim>\<open>URL: None\<close>,
  \<^verbatim>\<open>Published: None\<close>.
\<close>

theorem absent_fields_render_as_None:
  "append_results acc i
     (map (\<lambda>r. r\<lparr>title := Some (case title r of None \<Rightarrow> ''None'' | Some x \<Rightarrow> x),
                url := Some (case url r of None \<Rightarrow> ''None'' | Some x \<Rightarrow> x),
                published_date :=
                  Some (case published_date r of None \<Rightarrow> ''None'' | Some x \<Rightarrow> x)\<rparr>) rs)
     = append_results acc i rs
   \<and> result_block i \<lparr>title = None, url = None, published_date = None, content_preview = None\<rparr>
     = ''[Result '' @ str_nat (i + 1) @ '']\<newline>Title: None\<newline>URL: None\<newline>Published: None\<newline>''"
proof
  show "append_results acc i
     (map (\<lambda>r. r\<lparr>title := Some (case title r of None \<Rightarrow> ''None'' | Some x \<Rightarrow> x),
                url := Some (case url r of None \<Rightarrow> ''None'' | Some x \<Rightarrow> x),
                published_date :=
                  Some (case published_date r of None \<Rightarrow> ''None'' | Some x \<Rightarrow> x)\<rparr>) rs)
     = append_results acc i rs"
  proof (induction rs arbitrary: acc i)
    case Nil
    show ?case by simp
  next
    case (Cons r rs)
    have "result_block i
            (r\<lparr>title := Some (case title r of None \<Rightarrow> ''None'' | Some x \<Rightarrow> x),
               url := Some (case url r of None \<Rightarrow> ''None'' | Some x \<Rightarrow> x),
               published_date :=
                 Some (case published_date r of None \<Rightarrow> ''None'' | Some x \<Rightarrow> x)\<rparr>)
          = result_block i r"
      by (simp add: result_block_def preview_line_def split: option.split)
    with Cons.IH show ?case by simp
  qed
  show "result_block i \<lparr>title = None, url = None, published_date = None, content_preview = None\<rparr>
     = ''[Result '' @ str_nat (i + 1) @ '']\<newline>Title: None\<newline>URL: None\<newline>Published: None\<newline>''"
    by (simp add: result_block_def preview_line_def)
qed

text \<open>
  The claim as stated fails: with the title and the date missing, the digest reads
  \<^verbatim>\<open>Title: None\<close> and \<^verbatim>\<open>Published: None\<close>, not empty fields.
\<close>

theorem absent_field_counterexample:
  "search_summary (failed (PyStr ''connection refused'')) small_secondary =
     ''SEARCH RESULTS:\<newline>\<newline>\<newline>Search for '' @ [CHR 0x27] @ ''impact of robotics'' @ [CHR 0x27]
     @ '' found 1 results:\<newline>\<newline>''
     @ ''[Result 1]\<newline>Title: None\<newline>URL: https://example.org/robots\<newline>Published: None\<newline>''
   \<and> search_summary (failed (PyStr ''connection refused'')) small_secondary \<noteq>
     ''SEARCH RESULTS:\<newline>\<newline>\<newline>Search for '' @ [CHR 0x27] @ ''impact of robotics'' @ [CHR 0x27]
     @ '' found 1 results:\<newline>\<newline>''
     @ ''[Result 1]\<newline>Title: \<newline>URL: https://example.org/robots\<newline>Published: \<newline>''"
  by (simp add: search_summary_def add_section_def failed_def small_secondary_def
      untitled_result_def result_block_def preview_line_def str_nat.simps)

subsection \<open>The digest in the insights prompt\<close>

lemma run_pipeline_log_insights:
  assumes "researcher self (research_message t (snd (prepared_search self t))) = Inr r1"
  shows "take 4 (fst (run_pipeline self t)) =
     fst (prepared_search self t) @
       [Ran Researcher (research_message t (snd (prepared_search self t))),
        Ran InsightsExpert
          (insights_message t (extract_content r1) (snd (prepared_search self t)))]"
proof -
  obtain log digest where ps: "prepared_search self t = (log, digest)"
    by (cases "prepared_search self t")
  have "length log = 2"
    using prepared_search_log [of self t] ps by simp
  with ps assms show ?thesis
    by (simp add: run_pipeline_def Let_def split: sum.split)
qed

lemma length_full_primary:
  "length (add_section ''SEARCH RESULTS:\<newline>\<newline>'' [] full_primary) = 1684"
  by (simp add: add_section_def full_primary_def sample_result_def result_block_def
      preview_line_def str_nat.simps)

text \<open>
  C1, as amended.  When the researcher has answered, the fourth call of the run is the
  insights expert's, and its message holds the first 1000 characters of the whole digest
  (header, primary section, secondary section, in this order) followed by \<^verbatim>\<open>...\<close>.
  The cut is made on the digest, not on the secondary section: the header and the
  primary section are there in full exactly when they take at most 1000 characters;
  once they take 1000 characters or more, nothing of the secondary section is left; and
  a digest of at most 1000 characters is passed whole.
\<close>

theorem insights_prompt_digest:
  assumes "researcher self (research_message t (snd (prepared_search self t))) = Inr r1"
  shows "fst (run_pipeline self t) ! 3 =
           Ran InsightsExpert
             (''Add insights to the following research about '' @ t @ ''.\<newline>\<newline>''
              @ ''Research to analyze:\<newline>'' @ py_str (extract_content r1) @ ''\<newline>\<newline>''
              @ ''Also consider these additional search results:\<newline>''
              @ take 1000 (snd (prepared_search self t)) @ ''...\<newline>\<newline>''
              @ ''If you need any specific information, use the search_and_contents tool with a specific query.'')
       \<and> take 1000 (search_summary p s) =
           take 1000 (add_section ''SEARCH RESULTS:\<newline>\<newline>'' [] p
                      @ add_section [] ''\<newline>'' s)
       \<and> (take (length (add_section ''SEARCH RESULTS:\<newline>\<newline>'' [] p))
                (take 1000 (search_summary p s))
              = add_section ''SEARCH RESULTS:\<newline>\<newline>'' [] p)
           = (length (add_section ''SEARCH RESULTS:\<newline>\<newline>'' [] p) \<le> 1000)
       \<and> (1000 \<le> length (add_section ''SEARCH RESULTS:\<newline>\<newline>'' [] p) \<longrightarrow>
            take 1000 (search_summary p s) =
              take 1000 (add_section ''SEARCH RESULTS:\<newline>\<newline>'' [] p))
       \<and> (length (search_summary p s) \<le> 1000 \<longrightarrow>
            take 1000 (search_summary p s) = search_summary p s)"
proof (intro conjI impI)
  let ?A = "add_section ''SEARCH RESULTS:\<newline>\<newline>'' [] p"
  have "fst (run_pipeline self t) ! 3 = take 4 (fst (run_pipeline self t)) ! 3"
    by simp
  also have "\<dots> = Ran InsightsExpert
          (insights_message t (extract_content r1) (snd (prepared_search self t)))"
    unfolding run_pipeline_log_insights [OF assms] prepared_search_log by simp
  finally show "fst (run_pipeline self t) ! 3 =
           Ran InsightsExpert
             (''Add insights to the following research about '' @ t @ ''.\<newline>\<newline>''
              @ ''Research to analyze:\<newline>'' @ py_str (extract_content r1) @ ''\<newline>\<newline>''
              @ ''Also consider these additional search results:\<newline>''
              @ take 1000 (snd (prepared_search self t)) @ ''...\<newline>\<newline>''
              @ ''If you need any specific information, use the search_and_contents tool with a specific query.'')"
    by (simp only: insights_message_def)
  show "take 1000 (search_summary p s) = take 1000 (?A @ add_section [] ''\<newline>'' s)"
    by (simp only: search_summary_sections)
  show "(take (length ?A) (take 1000 (search_summary p s)) = ?A) = (length ?A \<le> 1000)"
  proof (cases "length ?A \<le> 1000")
    case True
    then have "take (length ?A) (take 1000 (search_summary p s)) = ?A"
      by (simp add: search_summary_sections min_def)
    with True show ?thesis by simp
  next
    case False
    then have "length (take (length ?A) (take 1000 (search_summary p s))) \<noteq> length ?A"
      by simp
    then have "take (length ?A) (take 1000 (search_summary p s)) \<noteq> ?A"
      by metis
    with False show ?thesis by simp
  qed
  show "take 1000 (search_summary p s) = take 1000 ?A"
    if "1000 \<le> length ?A"
    using that by (simp add: search_summary_sections)
  show "take 1000 (search_summary p s) = search_summary p s"
    if "length (search_summary p s) \<le> 1000"
    using that by simp
qed

theorem insights_prompt_digest_witness:
  "fst (run_pipeline offline_agents ''robotics'') ! 3 =
     Ran InsightsExpert
       (''Add insights to the following research about robotics.\<newline>\<newline>''
        @ ''Research to analyze:\<newline>findings\<newline>\<newline>''
        @ ''Also consider these additional search results:\<newline>''
        @ ''SEARCH RESULTS:\<newline>\<newline>'' @ ''...\<newline>\<newline>''
        @ ''If you need any specific information, use the search_and_contents tool with a specific query.'')
   \<and> 1000 \<le> length (add_section ''SEARCH RESULTS:\<newline>\<newline>'' [] full_primary)
   \<and> take 1000 (search_summary full_primary small_secondary) =
       take 1000 (add_section ''SEARCH RESULTS:\<newline>\<newline>'' [] full_primary)
   \<and> take (length (add_section ''SEARCH RESULTS:\<newline>\<newline>'' [] full_primary))
        (take 1000 (search_summary full_primary small_secondary))
       \<noteq> add_section ''SEARCH RESULTS:\<newline>\<newline>'' [] full_primary"
proof -
  have r: "researcher offline_agents
             (research_message ''robotics'' (snd (prepared_search offline_agents ''robotics'')))
           = Inr (only_content ''findings'')"
    by (simp add: offline_agents_def)
  have d: "snd (prepared_search offline_agents ''robotics'') = ''SEARCH RESULTS:\<newline>\<newline>''"
    by (simp add: prepared_search_digest search_summary_def manual_search_def failed_def
        add_section_def offline_agents_def)
  have e: "extract_content (only_content ''findings'') = PyStr ''findings''"
    by (simp add: extract_content_def only_content_def)
  have l: "1000 \<le> length (add_section ''SEARCH RESULTS:\<newline>\<newline>'' [] full_primary)"
    by (simp add: length_full_primary)
  have l': "\<not> length (add_section ''SEARCH RESULTS:\<newline>\<newline>'' [] full_primary) \<le> 1000"
    by (simp add: length_full_primary)
  show ?thesis
    using insights_prompt_digest [OF r, of full_primary small_secondary] l l'
    by (simp add: d e)
qed

text \<open>
  The claim as stated fails: with four full results the header and the primary section
  take 1684 characters, so the 1000 characters passed on are not the primary section in
  full followed by a cut secondary section.
\<close>

theorem digest_truncation_counterexample:
  "take 1000 (search_summary full_primary small_secondary)
     \<noteq> add_section ''SEARCH RESULTS:\<newline>\<newline>'' [] full_primary
         @ take 1000 (add_section [] ''\<newline>'' small_secondary)
   \<and> length (add_section ''SEARCH RESULTS:\<newline>\<newline>'' [] full_primary) = 1684
   \<and> length (take 1000 (search_summary full_primary small_secondary)) = 1000"
proof -
  have len: "length (add_section ''SEARCH RESULTS:\<newline>\<newline>'' [] full_primary) = 1684"
    by (rule length_full_primary)
  have cut: "length (take 1000 (search_summary full_primary small_secondary)) = 1000"
    using len by (simp add: search_summary_sections)
  have "length (take 1000 (search_summary full_primary small_secondary))
          \<noteq> length (add_section ''SEARCH RESULTS:\<newline>\<newline>'' [] full_primary
                      @ take 1000 (add_section [] ''\<newline>'' small_secondary))"
    unfolding cut using len by simp
  then have "take 1000 (search_summary full_primary small_secondary)
     \<noteq> add_section ''SEARCH RESULTS:\<newline>\<newline>'' [] full_primary
         @ take 1000 (add_section [] ''\<newline>'' small_secondary)"
    by metis
  with len cut show ?thesis by simp
qed

end
